theory Spec2Isabelle
  imports Main "HOL-Library.Sublist"
begin

section \<open>Values shared by the services and the handlers\<close>

text \<open>
  Identifiers are UUIDs; the storage adapter interpolates them into object keys, so a UUID is
  kept in its textual form. A blob is a list of bytes, a timestamp a number of ticks.
  Python strings are modelled as \<open>string\<close>, a \<open>char\<close> standing for a code point below
  256: the case mapping and the white space below are those of \<open>str.lower\<close> and
  \<open>str.isspace\<close> on that range.
\<close>

type_synonym uuid = string
type_synonym bytes = "nat list"
type_synonym datetime = nat

text \<open>
  The exceptions the adapters raise. \<open>str\<close> of either is its message.
\<close>

datatype exn = Exception string | ClientError string

fun str :: "exn \<Rightarrow> string" where
  "str (Exception m) = m"
| "str (ClientError m) = m"

text \<open>What a handler raises to the framework: \<open>HTTPException(status_code, detail)\<close>.\<close>

datatype http_error = HTTPException nat string

abbreviation HTTP_201_CREATED :: nat where "HTTP_201_CREATED \<equiv> 201"
abbreviation HTTP_400_BAD_REQUEST :: nat where "HTTP_400_BAD_REQUEST \<equiv> 400"
abbreviation HTTP_404_NOT_FOUND :: nat where "HTTP_404_NOT_FOUND \<equiv> 404"
abbreviation HTTP_500_INTERNAL_SERVER_ERROR :: nat where "HTTP_500_INTERNAL_SERVER_ERROR \<equiv> 500"

text \<open>
  The status line of a \<open>POST\<close> endpoint declared with \<open>status_code=HTTP_201_CREATED\<close>:
  the exception's code when the handler raises, 201 when it returns.
\<close>

fun post_status_code :: "http_error + 'a \<Rightarrow> nat" where
  "post_status_code (Inl (HTTPException c d)) = c"
| "post_status_code (Inr v) = HTTP_201_CREATED"

subsection \<open>String operations of the Python library\<close>

text \<open>
  The cased letters below 256: \<open>A\<close> to \<open>Z\<close>, and \<open>U+00C0\<close> to \<open>U+00DE\<close> without the
  multiplication sign \<open>U+00D7\<close>; each has its lower-case form 32 places further on.
\<close>

definition uppercase :: string where
  "uppercase =
     ''ABCDEFGHIJKLMNOPQRSTUVWXYZ'' @
     [CHR 0xC0, CHR 0xC1, CHR 0xC2, CHR 0xC3, CHR 0xC4, CHR 0xC5, CHR 0xC6, CHR 0xC7,
      CHR 0xC8, CHR 0xC9, CHR 0xCA, CHR 0xCB, CHR 0xCC, CHR 0xCD, CHR 0xCE, CHR 0xCF,
      CHR 0xD0, CHR 0xD1, CHR 0xD2, CHR 0xD3, CHR 0xD4, CHR 0xD5, CHR 0xD6, CHR 0xD8,
      CHR 0xD9, CHR 0xDA, CHR 0xDB, CHR 0xDC, CHR 0xDD, CHR 0xDE]"

definition lowercase :: string where
  "lowercase =
     ''abcdefghijklmnopqrstuvwxyz'' @
     [CHR 0xE0, CHR 0xE1, CHR 0xE2, CHR 0xE3, CHR 0xE4, CHR 0xE5, CHR 0xE6, CHR 0xE7,
      CHR 0xE8, CHR 0xE9, CHR 0xEA, CHR 0xEB, CHR 0xEC, CHR 0xED, CHR 0xEE, CHR 0xEF,
      CHR 0xF0, CHR 0xF1, CHR 0xF2, CHR 0xF3, CHR 0xF4, CHR 0xF5, CHR 0xF6, CHR 0xF8,
      CHR 0xF9, CHR 0xFA, CHR 0xFB, CHR 0xFC, CHR 0xFD, CHR 0xFE]"

definition lower_char :: "char \<Rightarrow> char" where
  "lower_char c =
     (case map_of (zip uppercase lowercase) c of
        None \<Rightarrow> c
      | Some d \<Rightarrow> d)"

definition lower :: "string \<Rightarrow> string" where
  "lower s = map lower_char s"

definition endswith :: "string \<Rightarrow> string \<Rightarrow> bool" where
  "endswith s suf = suffix suf s"

text \<open>
  The code points below 256 for which \<open>str.isspace\<close> holds, the ones \<open>str.strip()\<close>
  removes: the space, \<open>U+0009\<close> to \<open>U+000D\<close>, \<open>U+001C\<close> to \<open>U+001F\<close>, the next-line
  control \<open>U+0085\<close> and the no-break space \<open>U+00A0\<close>.
\<close>

definition isspace :: "char \<Rightarrow> bool" where
  "isspace c \<longleftrightarrow>
     c \<in> set [CHR '' '', CHR 0x09, CHR 0x0A, CHR 0x0B, CHR 0x0C, CHR 0x0D,
                CHR 0x1C, CHR 0x1D, CHR 0x1E, CHR 0x1F, CHR 0x85, CHR 0xA0]"

definition strip :: "string \<Rightarrow> string" where
  "strip s = rev (dropWhile isspace (rev (dropWhile isspace s)))"

fun join :: "string \<Rightarrow> string list \<Rightarrow> string" where
  "join sep [] = []"
| "join sep [x] = x"
| "join sep (x # y # ys) = x @ sep @ join sep (y # ys)"

text \<open>
  \<open>Path(filename).suffix\<close>: the final component of the path, from its last dot on, when that
  dot is neither the first nor the last character of the component; empty otherwise. The
  components are the pieces between slashes; empty pieces and single dots are no components
  (so a trailing separator does not hide the name), and a path without components has the
  empty name.
\<close>

fun split :: "char \<Rightarrow> string \<Rightarrow> string list" where
  "split sep [] = [[]]"
| "split sep (c # cs) =
     (if c = sep then [] # split sep cs
      else (case split sep cs of [] \<Rightarrow> [[c]] | piece # pieces \<Rightarrow> (c # piece) # pieces))"

definition path_name :: "string \<Rightarrow> string" where
  "path_name p =
     (case rev (filter (\<lambda>piece. piece \<noteq> [] \<and> piece \<noteq> ''.'') (split CHR ''/'' p)) of
        [] \<Rightarrow> []
      | name # parents \<Rightarrow> name)"

definition Path_suffix :: "string \<Rightarrow> string" where
  "Path_suffix p =
     (let name = path_name p;
          ext = rev (takeWhile (\<lambda>c. c \<noteq> CHR ''.'') (rev name))
      in if CHR ''.'' \<in> set name \<and> ext \<noteq> [] \<and> Suc (length ext) < length name
         then CHR ''.'' # ext else [])"

section \<open>The object storage service\<close>

text \<open>
  What pypdf sees in a document: \<open>PdfReader\<close> either raises or gives the pages, and
  \<open>extract_text\<close> of a page either raises or gives a string (empty when the page has no
  extractable text).
\<close>

type_synonym page = "exn + string"

text \<open>
  The objects put into the bucket, oldest first: key, body and content type.
\<close>

type_synonym bucket = "(string \<times> bytes \<times> string) list"

text \<open>
  The service instance and the libraries it calls. \<open>uuid4 n\<close> is the result of the
  \<open>n\<close>-th call of \<open>uuid.uuid4\<close> in the request; \<open>put_object\<close> answers with the
  exception it raises when the upload fails; \<open>generate_presigned_url\<close> is boto3's
  signer applied to the client method, the bucket, the key and \<open>ExpiresIn\<close>.
\<close>

record R2StorageService =
  bucket_name :: string
  public_url :: "string option"
  uuid4 :: "nat \<Rightarrow> uuid"
  put_object :: "string \<Rightarrow> bytes \<Rightarrow> string \<Rightarrow> exn option"
  PdfReader :: "bytes \<Rightarrow> exn + page list"
  generate_presigned_url :: "string \<Rightarrow> string \<Rightarrow> string \<Rightarrow> nat \<Rightarrow> exn + string"

text \<open>The loop of \<open>extract_pdf_text\<close> over \<open>reader.pages\<close>, with \<open>text_parts\<close> as accumulator.\<close>

fun extract_pages :: "page list \<Rightarrow> string list \<Rightarrow> exn + string list" where
  "extract_pages [] text_parts = Inr text_parts"
| "extract_pages (Inl e # ps) text_parts = Inl e"
| "extract_pages (Inr text # ps) text_parts =
     extract_pages ps (if text \<noteq> [] then text_parts @ [text] else text_parts)"

definition extract_pdf_text :: "('a R2StorageService_scheme) \<Rightarrow> bytes \<Rightarrow> exn + string" where
  "extract_pdf_text self pdf =
     (case PdfReader self pdf of
        Inl e \<Rightarrow> Inl (Exception ''Failed to extract text from PDF'')
      | Inr pages \<Rightarrow>
          (case extract_pages pages [] of
             Inl e \<Rightarrow> Inl (Exception ''Failed to extract text from PDF'')
           | Inr text_parts \<Rightarrow> Inr (strip (join [CHR 0x0A] text_parts))))"

text \<open>
  \<open>save_pdf\<close>: the object is put first, the text extracted afterwards from a temporary copy
  of the content. A \<open>ClientError\<close> is wrapped, any other exception is raised again as it is.
\<close>

definition save_pdf ::
  "('a R2StorageService_scheme) \<Rightarrow> bucket \<Rightarrow> bytes \<Rightarrow> string \<Rightarrow> bucket \<times> (exn + string \<times> string)" where
  "save_pdf self b content filename =
     (let file_ext = Path_suffix filename;
          unique_filename = uuid4 self 0 @ file_ext;
          r2_key = ''pdfs/'' @ unique_filename
      in case put_object self r2_key content ''application/pdf'' of
           Some (ClientError m) \<Rightarrow> (b, Inl (Exception (''Failed to save PDF to R2: '' @ m)))
         | Some (Exception m) \<Rightarrow> (b, Inl (Exception m))
         | None \<Rightarrow>
             (let b' = b @ [(r2_key, content, ''application/pdf'')]
              in case extract_pdf_text self content of
                   Inl e \<Rightarrow> (b', Inl e)
                 | Inr extracted_text \<Rightarrow> (b', Inr (r2_key, extracted_text))))"

definition save_audio ::
  "('a R2StorageService_scheme) \<Rightarrow> bucket \<Rightarrow> bytes \<Rightarrow> string \<Rightarrow> bucket \<times> (exn + string)" where
  "save_audio self b content filename =
     (let file_ext = (if Path_suffix filename \<noteq> [] then Path_suffix filename else ''.webm'');
          unique_filename = uuid4 self 0 @ file_ext;
          r2_key = ''audio/'' @ unique_filename;
          content_type = (if file_ext = ''.ogg'' then ''audio/ogg''
                          else if file_ext = ''.wav'' then ''audio/wav''
                          else ''audio/webm'')
      in case put_object self r2_key content content_type of
           Some (ClientError m) \<Rightarrow> (b, Inl (Exception (''Failed to save audio to R2: '' @ m)))
         | Some (Exception m) \<Rightarrow> (b, Inl (Exception m))
         | None \<Rightarrow> (b @ [(r2_key, content, content_type)], Inr r2_key))"

definition get_file_url :: "('a R2StorageService_scheme) \<Rightarrow> string \<Rightarrow> exn + string" where
  "get_file_url self r2_key =
     (case public_url self of
        Some base \<Rightarrow>
          (if base \<noteq> [] then Inr (base @ ''/'' @ r2_key)
           else generate_presigned_url self ''get_object'' (bucket_name self) r2_key 3600)
      | None \<Rightarrow> generate_presigned_url self ''get_object'' (bucket_name self) r2_key 3600)"

section \<open>The language-model service\<close>

text \<open>
  The output schemas. \<open>QuestionsList\<close> holds a list of strings with \<open>min_length=5\<close> and
  \<open>max_length=5\<close>; every field of \<open>Scores\<close> is an integer with \<open>ge=1\<close> and \<open>le=10\<close>.
\<close>

definition QuestionsList_valid :: "string list \<Rightarrow> bool" where
  "QuestionsList_valid questions \<longleftrightarrow> 5 \<le> length questions \<and> length questions \<le> 5"

record Scores =
  confidence :: int
  clarity_structure :: int
  technical_depth :: int
  communication_skills :: int
  relevance :: int

record Feedback =
  fb_confidence :: string
  fb_clarity_structure :: string
  fb_technical_depth :: string
  fb_communication_skills :: string
  fb_relevance :: string

record EvaluationResult =
  scores :: Scores
  feedback :: Feedback
  overall_comment :: string

definition Scores_valid :: "Scores \<Rightarrow> bool" where
  "Scores_valid s \<longleftrightarrow>
     1 \<le> confidence s \<and> confidence s \<le> 10 \<and>
     1 \<le> clarity_structure s \<and> clarity_structure s \<le> 10 \<and>
     1 \<le> technical_depth s \<and> technical_depth s \<le> 10 \<and>
     1 \<le> communication_skills s \<and> communication_skills s \<le> 10 \<and>
     1 \<le> relevance s \<and> relevance s \<le> 10"

definition EvaluationResult_valid :: "EvaluationResult \<Rightarrow> bool" where
  "EvaluationResult_valid r \<longleftrightarrow> Scores_valid (scores r)"

text \<open>
  The answer of the hosted model to one request: the call raises, or it yields a message whose
  structured content is absent or present.
\<close>

datatype 'a api_answer = ApiError string | Message "'a option"

text \<open>
  \<open>client.beta.messages.parse\<close> with \<open>output_format\<close>: the client library validates the
  structured content against the declared schema, so an answer that violates the schema makes
  the call raise a \<open>ValidationError\<close>, whose text \<open>validation_error\<close> is the report of the
  validating library for that content, and an answer without structured content gives
  \<open>parsed_output = None\<close>.
\<close>

definition messages_parse ::
  "('a \<Rightarrow> bool) \<Rightarrow> ('a \<Rightarrow> string) \<Rightarrow> 'a api_answer \<Rightarrow> exn + 'a option" where
  "messages_parse output_format validation_error answer =
     (case answer of
        ApiError m \<Rightarrow> Inl (Exception m)
      | Message None \<Rightarrow> Inr None
      | Message (Some v) \<Rightarrow>
          (if output_format v then Inr (Some v) else Inl (Exception (validation_error v))))"

text \<open>
  Modelled from the spec: \<open>whisper_service\<close> is not part of the repository. The
  transcription adapter "converts an audio blob to text synchronously; its internal mechanics
  are opaque (external speech-to-text engine) and it either returns a transcript string or
  fails", and "transcription success implies a Response row exists with non-empty
  transcript": the outcome of the engine is a failure with its exception, or a transcript
  given by its first character and the rest.
\<close>

datatype transcription = TranscriptionFailed exn | Transcript char string

text \<open>
  The environment of a request: the storage service with its libraries (the handlers'
  \<open>storage_service\<close> is taken to be this R2 service), the hosted model seen through the three
  inputs of the prompt, the speech-to-text engine and the clock.
\<close>

record services = R2StorageService +
  claude_questions :: "string \<Rightarrow> string \<Rightarrow> string \<Rightarrow> string list api_answer"
  claude_evaluation :: "string \<Rightarrow> string \<Rightarrow> string \<Rightarrow> EvaluationResult api_answer"
  questions_validation_error :: "string list \<Rightarrow> string"
  evaluation_validation_error :: "EvaluationResult \<Rightarrow> string"
  whisper_service :: "string \<Rightarrow> transcription"
  utcnow :: datetime

text \<open>
  Modelled from the spec: \<open>whisper_service.transcribe\<close> is not part of the repository. It
  raises the exception of the engine or returns the transcript of the stored audio, which by
  the specification is a non-empty string.
\<close>

definition transcribe :: "services \<Rightarrow> string \<Rightarrow> exn + string" where
  "transcribe svc audio_path =
     (case whisper_service svc audio_path of
        TranscriptionFailed e \<Rightarrow> Inl e
      | Transcript c cs \<Rightarrow> Inr (c # cs))"

definition generate_questions :: "services \<Rightarrow> string \<Rightarrow> string \<Rightarrow> string \<Rightarrow> exn + string list" where
  "generate_questions svc job_description_text company job =
     (case messages_parse QuestionsList_valid (questions_validation_error svc)
             (claude_questions svc job_description_text company job) of
        Inl e \<Rightarrow> Inl e
      | Inr None \<Rightarrow> Inl (Exception ''Failed to parse questions from Claude response'')
      | Inr (Some parsed_output) \<Rightarrow> Inr parsed_output)"

definition evaluate_response ::
  "services \<Rightarrow> string \<Rightarrow> string \<Rightarrow> string \<Rightarrow> exn + EvaluationResult" where
  "evaluate_response svc job_description_text question_txt transcript_txt =
     (case messages_parse EvaluationResult_valid (evaluation_validation_error svc)
             (claude_evaluation svc job_description_text question_txt transcript_txt) of
        Inl e \<Rightarrow> Inl e
      | Inr None \<Rightarrow> Inl (Exception ''Failed to parse evaluation from Claude response'')
      | Inr (Some result) \<Rightarrow> Inr result)"

section \<open>The relational model\<close>

datatype JobDescriptionStatus = PENDING | QUESTIONS_GENERATED | ERROR

record User =
  u_id :: uuid
  u_email :: string
  u_password_hash :: string
  u_created_at :: datetime
  u_updated_at :: datetime

text \<open>
  Modelled from the spec: the classes \<open>JobDescription\<close>, \<open>Question\<close> and \<open>ResponseScore\<close>
  are not part of the repository; their columns are the attributes of section 3 of the
  specification, which are also the ones the handlers read and write.
\<close>

record JobDescription =
  jd_id :: uuid
  jd_user_id :: uuid
  jd_company_name :: string
  jd_job_title :: string
  jd_file_path :: string
  jd_extracted_text :: string
  jd_status :: JobDescriptionStatus
  jd_error_message :: "string option"
  jd_created_at :: datetime

record Question =
  q_id :: uuid
  q_job_description_id :: uuid
  q_user_id :: uuid
  q_question_text :: string

record Response =
  r_id :: uuid
  r_question_id :: uuid
  r_user_id :: uuid
  r_audio_path :: string
  r_transcript :: string
  r_created_at :: datetime

record ResponseScore =
  rs_id :: uuid
  rs_response_id :: uuid
  rs_scores_json :: EvaluationResult
  rs_score_confidence :: int
  rs_score_clarity_structure :: int
  rs_score_technical_depth :: int
  rs_score_communication_skills :: int
  rs_score_relevance :: int

record database =
  job_descriptions :: "JobDescription list"
  questions :: "Question list"
  responses :: "Response list"
  response_scores :: "ResponseScore list"

text \<open>Everything a request can change: the tables and the bucket.\<close>

record world =
  db :: database
  r2 :: bucket

text \<open>
  \<open>db.add\<close> followed by \<open>db.commit\<close> appends the row; committing a changed attribute of a
  loaded object rewrites the row with that primary key. Commits are taken to succeed.
\<close>

definition add_job_description :: "JobDescription \<Rightarrow> database \<Rightarrow> database" where
  "add_job_description j d = d\<lparr>job_descriptions := job_descriptions d @ [j]\<rparr>"

definition update_job_description :: "JobDescription \<Rightarrow> database \<Rightarrow> database" where
  "update_job_description j d =
     d\<lparr>job_descriptions := map (\<lambda>x. if jd_id x = jd_id j then j else x) (job_descriptions d)\<rparr>"

definition add_questions :: "Question list \<Rightarrow> database \<Rightarrow> database" where
  "add_questions qs d = d\<lparr>questions := questions d @ qs\<rparr>"

definition add_response :: "Response \<Rightarrow> database \<Rightarrow> database" where
  "add_response r d = d\<lparr>responses := responses d @ [r]\<rparr>"

definition add_response_score :: "ResponseScore \<Rightarrow> database \<Rightarrow> database" where
  "add_response_score s d = d\<lparr>response_scores := response_scores d @ [s]\<rparr>"

section \<open>The handlers\<close>

record UploadFile =
  filename :: string
  content :: bytes

subsection \<open>Job descriptions\<close>

text \<open>
  Primary keys default to \<open>uuid.uuid4\<close>, called when the row is flushed. In a request the
  storage service makes call 0; the row the handler creates first (the job description, the
  response) gets call 1, and the rows after it (the questions, the score) the calls from 2 on.
\<close>

definition new_questions :: "services \<Rightarrow> uuid \<Rightarrow> uuid \<Rightarrow> string list \<Rightarrow> Question list" where
  "new_questions svc job_description_id user questions_list =
     map (\<lambda>(i, question_txt).
            \<lparr>q_id = uuid4 svc (2 + i), q_job_description_id = job_description_id,
             q_user_id = user, q_question_text = question_txt\<rparr>)
         (enumerate 0 questions_list)"

definition upload_job_description ::
  "services \<Rightarrow> world \<Rightarrow> User \<Rightarrow> UploadFile \<Rightarrow> string \<Rightarrow> string \<Rightarrow>
     world \<times> (http_error + JobDescription)" where
  "upload_job_description svc w current_user file company_name job_title =
     (if \<not> endswith (lower (filename file)) ''.pdf'' then
        (w, Inl (HTTPException HTTP_400_BAD_REQUEST ''File must be a PDF''))
      else if length (content file) > 10 * 1024 * 1024 then
        (w, Inl (HTTPException HTTP_400_BAD_REQUEST ''File size must be less than 10MB''))
      else
        (case save_pdf svc (r2 w) (content file) (filename file) of
           (b, Inl e) \<Rightarrow>
             (w\<lparr>r2 := b\<rparr>,
              Inl (HTTPException HTTP_500_INTERNAL_SERVER_ERROR ''Failed to process job description''))
         | (b, Inr (file_path, extracted_text)) \<Rightarrow>
             (let job_description =
                    \<lparr>jd_id = uuid4 svc 1, jd_user_id = u_id current_user,
                     jd_company_name = company_name, jd_job_title = job_title,
                     jd_file_path = file_path, jd_extracted_text = extracted_text,
                     jd_status = PENDING, jd_error_message = None,
                     jd_created_at = utcnow svc\<rparr>;
                  d = add_job_description job_description (db w)
              in case generate_questions svc extracted_text company_name job_title of
                   Inr questions_list \<Rightarrow>
                     (let d = add_questions
                                (new_questions svc (jd_id job_description) (u_id current_user)
                                   questions_list) d;
                          job_description = job_description\<lparr>jd_status := QUESTIONS_GENERATED\<rparr>;
                          d = update_job_description job_description d
                      in (\<lparr>db = d, r2 = b\<rparr>, Inr job_description))
                 | Inl e \<Rightarrow>
                     (let job_description =
                            job_description\<lparr>jd_status := ERROR, jd_error_message := Some (str e)\<rparr>;
                          d = update_job_description job_description d
                      in (\<lparr>db = d, r2 = b\<rparr>, Inr job_description)))))"

text \<open>
  \<open>order_by(created_at.desc())\<close>: newest first; rows of equal age stay in the order the
  table holds them (the database leaves their order open).
\<close>

definition newest_first :: "('a \<Rightarrow> datetime) \<Rightarrow> 'a list \<Rightarrow> 'a list" where
  "newest_first created_at rows = sort_key (\<lambda>row. - int (created_at row)) rows"



subsection \<open>Responses\<close>

text \<open>The body of a successful submission, and an item of the listing.\<close>

record ResponseResponse =
  rr_response_id :: uuid
  rr_transcript :: string
  rr_scores :: Scores
  rr_feedback :: Feedback
  rr_overall_comment :: string
  rr_created_at :: datetime

record ResponseListItem =
  li_response_id :: uuid
  li_created_at :: datetime
  li_scores :: Scores

text \<open>
  The message of the \<open>AttributeError\<close> that reading \<open>extracted_text\<close> of \<open>None\<close> raises.
\<close>

definition NoneType_has_no_extracted_text :: string where
  "NoneType_has_no_extracted_text =
     [CHR 0x27] @ ''NoneType'' @ [CHR 0x27] @ '' object has no attribute '' @
     [CHR 0x27] @ ''extracted_text'' @ [CHR 0x27]"

definition submit_response ::
  "services \<Rightarrow> world \<Rightarrow> User \<Rightarrow> uuid \<Rightarrow> UploadFile \<Rightarrow> world \<times> (http_error + ResponseResponse)" where
  "submit_response svc w current_user question_id audio_file =
     (case find (\<lambda>q. q_id q = question_id \<and> q_user_id q = u_id current_user)
             (questions (db w)) of
        None \<Rightarrow> (w, Inl (HTTPException HTTP_404_NOT_FOUND ''Question not found''))
      | Some question \<Rightarrow>
          (let job_description =
                 find (\<lambda>j. jd_id j = q_job_description_id question) (job_descriptions (db w))
           in if length (content audio_file) > 50 * 1024 * 1024 then
                (w, Inl (HTTPException HTTP_400_BAD_REQUEST
                           ''Audio file size must be less than 50MB''))
              else
                (case save_audio svc (r2 w) (content audio_file) (filename audio_file) of
                   (b, Inl e) \<Rightarrow>
                     (w\<lparr>r2 := b\<rparr>,
                      Inl (HTTPException HTTP_500_INTERNAL_SERVER_ERROR
                             (''Failed to process response: '' @ str e)))
                 | (b, Inr audio_path) \<Rightarrow>
                     (case transcribe svc audio_path of
                        Inl e \<Rightarrow>
                          (w\<lparr>r2 := b\<rparr>,
                           Inl (HTTPException HTTP_500_INTERNAL_SERVER_ERROR
                                  (''Failed to process response: '' @ str e)))
                      | Inr transcript \<Rightarrow>
                          (let response =
                                 \<lparr>r_id = uuid4 svc 1, r_question_id = q_id question,
                                  r_user_id = u_id current_user, r_audio_path = audio_path,
                                  r_transcript = transcript, r_created_at = utcnow svc\<rparr>;
                               d = add_response response (db w)
                           in case (case job_description of
                                      None \<Rightarrow>
                                        Inl (Exception NoneType_has_no_extracted_text)
                                    | Some j \<Rightarrow>
                                        evaluate_response svc (jd_extracted_text j)
                                          (q_question_text question) transcript) of
                                Inl e \<Rightarrow>
                                  (\<lparr>db = d, r2 = b\<rparr>,
                                   Inl (HTTPException HTTP_500_INTERNAL_SERVER_ERROR
                                          (''Failed to process response: '' @ str e)))
                              | Inr evaluation \<Rightarrow>
                                  (let response_score =
                                         \<lparr>rs_id = uuid4 svc 2, rs_response_id = r_id response,
                                          rs_scores_json = evaluation,
                                          rs_score_confidence = confidence (scores evaluation),
                                          rs_score_clarity_structure =
                                            clarity_structure (scores evaluation),
                                          rs_score_technical_depth =
                                            technical_depth (scores evaluation),
                                          rs_score_communication_skills =
                                            communication_skills (scores evaluation),
                                          rs_score_relevance = relevance (scores evaluation)\<rparr>;
                                       d = add_response_score response_score d
                                   in (\<lparr>db = d, r2 = b\<rparr>,
                                       Inr \<lparr>rr_response_id = r_id response,
                                            rr_transcript = transcript,
                                            rr_scores = scores evaluation,
                                            rr_feedback = feedback evaluation,
                                            rr_overall_comment = overall_comment evaluation,
                                            rr_created_at = r_created_at response\<rparr>)))))))"

text \<open>
  The query of \<open>list_responses\<close>: \<open>join\<close> of the two tables on
  \<open>Response.id == ResponseScore.response_id\<close>, the filter on the question, newest first.
\<close>

definition responses_with_scores :: "database \<Rightarrow> uuid \<Rightarrow> (Response \<times> ResponseScore) list" where
  "responses_with_scores d question_id =
     newest_first (\<lambda>(response, score). r_created_at response)
       (filter (\<lambda>(response, score). r_question_id response = question_id)
          (concat (map (\<lambda>response.
                          map (\<lambda>score. (response, score))
                            (filter (\<lambda>score. r_id response = rs_response_id score)
                               (response_scores d)))
                     (responses d))))"

text \<open>The body of the formatting loop of \<open>list_responses\<close>.\<close>

definition list_item :: "Response \<times> ResponseScore \<Rightarrow> ResponseListItem" where
  "list_item row =
     (case row of (response, score) \<Rightarrow>
        \<lparr>li_response_id = r_id response, li_created_at = r_created_at response,
         li_scores = scores (rs_scores_json score)\<rparr>)"

definition list_responses :: "world \<Rightarrow> User \<Rightarrow> uuid \<Rightarrow> http_error + ResponseListItem list" where
  "list_responses w current_user question_id =
     (case find (\<lambda>q. q_id q = question_id \<and> q_user_id q = u_id current_user)
             (questions (db w)) of
        None \<Rightarrow> Inl (HTTPException HTTP_404_NOT_FOUND ''Question not found'')
      | Some question \<Rightarrow> Inr (map list_item (responses_with_scores (db w) question_id)))"

section \<open>Histories of requests\<close>




definition empty_world :: world where
  "empty_world =
     \<lparr>db = \<lparr>job_descriptions = [], questions = [], responses = [], response_scores = []\<rparr>,
      r2 = []\<rparr>"



section \<open>Predicates of the statements\<close>

text \<open>
  The specification's wording of text extraction, for comparison with \<open>extract_pdf_text\<close>:
  "concatenate extractable text of every page, trimmed".
\<close>

definition spec_concatenated_text :: "string list \<Rightarrow> string" where
  "spec_concatenated_text texts = strip (concat texts)"



section \<open>Concrete requests\<close>

text \<open>
  A run of the handlers on small inputs: two users, a service environment in which every
  collaborator answers, and the rows of one job description with one question.
\<close>

definition good_evaluation :: EvaluationResult where
  "good_evaluation =
     \<lparr>scores = \<lparr>confidence = 7, clarity_structure = 6, technical_depth = 5,
                 communication_skills = 8, relevance = 9\<rparr>,
      feedback = \<lparr>fb_confidence = ''steady'', fb_clarity_structure = ''use STAR'',
                   fb_technical_depth = ''add detail'', fb_communication_skills = ''clear'',
                   fb_relevance = ''on topic''\<rparr>,
      overall_comment = ''solid answer''\<rparr>"

definition demo_services :: services where
  "demo_services =
     \<lparr>bucket_name = ''interview-prep'', public_url = None,
      uuid4 = (\<lambda>n. replicate (Suc n) CHR ''u''),
      put_object = (\<lambda>key body content_type. None),
      PdfReader = (\<lambda>body. Inr [Inr ''Senior'', Inr [], Inr (''Engineer'' @ [CHR 0xA0])]),
      generate_presigned_url =
        (\<lambda>client_method b key expires_in.
           Inr (''https://r2.example/'' @ b @ ''/'' @ key @
                (if expires_in = 3600 then ''?X-Amz-Expires=3600'' else ''?X-Amz-Expires=other''))),
      claude_questions = (\<lambda>text company job. Message (Some [''q1'', ''q2'', ''q3'', ''q4'', ''q5''])),
      claude_evaluation = (\<lambda>text question answer. Message (Some good_evaluation)),
      questions_validation_error = (\<lambda>questions. ''1 validation error for QuestionsList''),
      evaluation_validation_error = (\<lambda>result. ''1 validation error for EvaluationResult''),
      whisper_service = (\<lambda>path. Transcript CHR ''I'' '' led a team''),
      utcnow = 7\<rparr>"

definition alice :: User where
  "alice = \<lparr>u_id = ''alice'', u_email = ''alice@example.org'', u_password_hash = ''x'',
             u_created_at = 0, u_updated_at = 0\<rparr>"


definition jd_pdf :: UploadFile where
  "jd_pdf = \<lparr>filename = ''jd.pdf'', content = [37, 80, 68, 70]\<rparr>"

definition big_pdf :: UploadFile where
  "big_pdf = \<lparr>filename = ''jd.pdf'', content = replicate (12 * 1024 * 1024) 0\<rparr>"

definition answer_wav :: UploadFile where
  "answer_wav = \<lparr>filename = ''answer.wav'', content = [82, 73, 70, 70]\<rparr>"

definition acme_job :: JobDescription where
  "acme_job =
     \<lparr>jd_id = ''jd-1'', jd_user_id = ''alice'', jd_company_name = ''Acme'',
      jd_job_title = ''Engineer'', jd_file_path = ''pdfs/f-1.pdf'',
      jd_extracted_text = ''Build things'', jd_status = QUESTIONS_GENERATED,
      jd_error_message = None, jd_created_at = 1\<rparr>"

definition acme_question :: Question where
  "acme_question =
     \<lparr>q_id = ''q-1'', q_job_description_id = ''jd-1'', q_user_id = ''alice'',
      q_question_text = ''Tell me about a project''\<rparr>"

definition interview_world :: world where
  "interview_world =
     \<lparr>db = \<lparr>job_descriptions = [acme_job], questions = [acme_question], responses = [],
             response_scores = []\<rparr>,
      r2 = []\<rparr>"



text \<open>Two responses to Alice's question, of which only the first has a score.\<close>

definition scored_response :: Response where
  "scored_response =
     \<lparr>r_id = ''r-1'', r_question_id = ''q-1'', r_user_id = ''alice'',
      r_audio_path = ''audio/a-1.wav'', r_transcript = ''I led a team'', r_created_at = 3\<rparr>"

definition unscored_response :: Response where
  "unscored_response =
     \<lparr>r_id = ''r-2'', r_question_id = ''q-1'', r_user_id = ''alice'',
      r_audio_path = ''audio/a-2.wav'', r_transcript = ''I shipped it'', r_created_at = 4\<rparr>"

definition first_score :: ResponseScore where
  "first_score =
     \<lparr>rs_id = ''s-1'', rs_response_id = ''r-1'', rs_scores_json = good_evaluation,
      rs_score_confidence = 7, rs_score_clarity_structure = 6, rs_score_technical_depth = 5,
      rs_score_communication_skills = 8, rs_score_relevance = 9\<rparr>"

definition answered_world :: world where
  "answered_world =
     \<lparr>db = \<lparr>job_descriptions = [acme_job], questions = [acme_question],
             responses = [scored_response, unscored_response], response_scores = [first_score]\<rparr>,
      r2 = []\<rparr>"

section \<open>Auxiliary facts\<close>

lemma length_new_questions: "length (new_questions svc j u qs) = length qs"
  by (simp add: new_questions_def)

lemma new_questions_parent:
  "q \<in> set (new_questions svc j u qs) \<Longrightarrow> q_job_description_id q = j \<and> q_user_id q = u"
  by (auto simp: new_questions_def)

lemma generate_questions_five:
  "generate_questions svc t c j = Inr qs \<Longrightarrow> length qs = 5"
  by (auto simp: generate_questions_def messages_parse_def QuestionsList_valid_def
      split: api_answer.splits option.splits if_splits sum.splits)

lemma filter_all: "(\<forall>x\<in>set xs. P x) \<Longrightarrow> filter P xs = xs"
  by (induction xs) auto

lemma filter_none: "(\<forall>x\<in>set xs. \<not> P x) \<Longrightarrow> filter P xs = []"
  by (induction xs) auto

lemma demo_save_pdf:
  "save_pdf demo_services [] (content jd_pdf) (filename jd_pdf) =
     ([(''pdfs/u.pdf'', [37, 80, 68, 70], ''application/pdf'')],
      Inr (''pdfs/u.pdf'', ''Senior'' @ [CHR 0x0A] @ ''Engineer''))"
  by (simp add: save_pdf_def extract_pdf_text_def demo_services_def jd_pdf_def Path_suffix_def
      path_name_def strip_def isspace_def Let_def)

lemma jd_pdf_name: "endswith (lower (filename jd_pdf)) ''.pdf''"
  by (simp add: jd_pdf_def endswith_def lower_def lower_char_def uppercase_def lowercase_def suffix_to_prefix)

lemma jd_pdf_size: "length (content jd_pdf) \<le> 10 * 1024 * 1024"
  by (simp add: jd_pdf_def)

section \<open>Uploading a job description\<close>

text \<open>
  C1. An upload whose file name does not end in \<open>.pdf\<close>, whatever the case of its letters, or
  whose content is longer than 10 MiB is answered with status 400, and the world (the bucket
  and every table) is the one the request started in: no object is stored and no
  job-description row is created. The detail names the check that failed, the file name being
  checked first.
\<close>

theorem upload_rejects_invalid_file:
  assumes "\<not> endswith (lower (filename file)) ''.pdf'' \<or> length (content file) > 10 * 1024 * 1024"
  shows "upload_job_description svc w current_user file company_name job_title =
           (w, Inl (HTTPException HTTP_400_BAD_REQUEST
                      (if \<not> endswith (lower (filename file)) ''.pdf'' then ''File must be a PDF''
                       else ''File size must be less than 10MB'')))"
  using assms by (auto simp: upload_job_description_def)

theorem upload_rejects_invalid_file_witness:
  "endswith (lower (filename big_pdf)) ''.pdf'' \<and>
   length (content big_pdf) > 10 * 1024 * 1024 \<and>
   upload_job_description demo_services empty_world alice big_pdf ''Acme'' ''Engineer'' =
     (empty_world, Inl (HTTPException HTTP_400_BAD_REQUEST ''File size must be less than 10MB''))"
proof -
  have large: "\<not> endswith (lower (filename big_pdf)) ''.pdf'' \<or>
               length (content big_pdf) > 10 * 1024 * 1024"
    by (simp add: big_pdf_def)
  have name: "endswith (lower (filename big_pdf)) ''.pdf''"
    by (simp add: big_pdf_def endswith_def lower_def lower_char_def uppercase_def lowercase_def suffix_to_prefix)
  from upload_rejects_invalid_file [OF large, where svc = demo_services and w = empty_world
      and current_user = alice and company_name = "''Acme''" and job_title = "''Engineer''"]
    name
  show ?thesis by (simp add: big_pdf_def)
qed

text \<open>
  C2. Take an upload that passed validation and whose PDF was stored and read, with a new
  job-description id that no existing question refers to. If question generation succeeds,
  the handler returns the job description, its row (the only one with that id) has status
  \<open>QUESTIONS_GENERATED\<close>, and exactly 5 question rows are attached to it. If question
  generation fails with exception \<open>e\<close>, the returned row has status \<open>ERROR\<close> and
  \<open>error_message = str e\<close>, and no question row is attached to it.
\<close>

theorem upload_generation_outcome:
  assumes pdf: "endswith (lower (filename file)) ''.pdf''"
    and size: "length (content file) \<le> 10 * 1024 * 1024"
    and saved: "save_pdf svc (r2 w) (content file) (filename file) =
                  (b, Inr (file_path, extracted_text))"
    and fresh: "\<forall>q\<in>set (questions (db w)). q_job_description_id q \<noteq> uuid4 svc 1"
    and run: "upload_job_description svc w current_user file company_name job_title = (w', result)"
  shows "(\<forall>questions_list.
            generate_questions svc extracted_text company_name job_title = Inr questions_list \<longrightarrow>
            (\<exists>jd. result = Inr jd \<and> jd_id jd = uuid4 svc 1 \<and>
                  jd \<in> set (job_descriptions (db w')) \<and>
                  (\<forall>j\<in>set (job_descriptions (db w')). jd_id j = jd_id jd \<longrightarrow> j = jd) \<and>
                  jd_status jd = QUESTIONS_GENERATED \<and>
                  length (filter (\<lambda>q. q_job_description_id q = jd_id jd) (questions (db w'))) = 5)) \<and>
         (\<forall>e. generate_questions svc extracted_text company_name job_title = Inl e \<longrightarrow>
            (\<exists>jd. result = Inr jd \<and> jd_id jd = uuid4 svc 1 \<and>
                  jd \<in> set (job_descriptions (db w')) \<and>
                  (\<forall>j\<in>set (job_descriptions (db w')). jd_id j = jd_id jd \<longrightarrow> j = jd) \<and>
                  jd_status jd = ERROR \<and> jd_error_message jd = Some (str e) \<and>
                  filter (\<lambda>q. q_job_description_id q = jd_id jd) (questions (db w')) = []))"
proof (intro conjI allI impI)
  fix questions_list
  assume gen: "generate_questions svc extracted_text company_name job_title = Inr questions_list"
  have old: "filter (\<lambda>q. q_job_description_id q = uuid4 svc 1) (questions (db w)) = []"
    using fresh by (simp add: filter_none)
  have new: "filter (\<lambda>q. q_job_description_id q = uuid4 svc 1)
               (new_questions svc (uuid4 svc 1) (u_id current_user) questions_list)
             = new_questions svc (uuid4 svc 1) (u_id current_user) questions_list"
    by (rule filter_all) (simp add: new_questions_parent)
  from run pdf size saved gen old new generate_questions_five [OF gen] length_new_questions
  show "\<exists>jd. result = Inr jd \<and> jd_id jd = uuid4 svc 1 \<and>
                  jd \<in> set (job_descriptions (db w')) \<and>
                  (\<forall>j\<in>set (job_descriptions (db w')). jd_id j = jd_id jd \<longrightarrow> j = jd) \<and>
                  jd_status jd = QUESTIONS_GENERATED \<and>
                  length (filter (\<lambda>q. q_job_description_id q = jd_id jd) (questions (db w'))) = 5"
    by (auto simp: upload_job_description_def Let_def add_job_description_def add_questions_def
        update_job_description_def)
next
  fix e
  assume gen: "generate_questions svc extracted_text company_name job_title = Inl e"
  have old: "filter (\<lambda>q. q_job_description_id q = uuid4 svc 1) (questions (db w)) = []"
    using fresh by (simp add: filter_none)
  from run pdf size saved gen old
  show "\<exists>jd. result = Inr jd \<and> jd_id jd = uuid4 svc 1 \<and>
                  jd \<in> set (job_descriptions (db w')) \<and>
                  (\<forall>j\<in>set (job_descriptions (db w')). jd_id j = jd_id jd \<longrightarrow> j = jd) \<and>
                  jd_status jd = ERROR \<and> jd_error_message jd = Some (str e) \<and>
                  filter (\<lambda>q. q_job_description_id q = jd_id jd) (questions (db w')) = []"
    by (auto simp: upload_job_description_def Let_def add_job_description_def
        update_job_description_def)
qed

theorem upload_generation_outcome_witness:
  "endswith (lower (filename jd_pdf)) ''.pdf'' \<and>
   length (content jd_pdf) \<le> 10 * 1024 * 1024 \<and>
   questions (db empty_world) = [] \<and>
   generate_questions demo_services (''Senior'' @ [CHR 0x0A] @ ''Engineer'') ''Acme'' ''Engineer'' =
     Inr [''q1'', ''q2'', ''q3'', ''q4'', ''q5''] \<and>
   (\<exists>jd. snd (upload_job_description demo_services empty_world alice jd_pdf ''Acme'' ''Engineer'')
            = Inr jd \<and>
         jd_status jd = QUESTIONS_GENERATED \<and>
         length (filter (\<lambda>q. q_job_description_id q = jd_id jd)
                   (questions (db (fst (upload_job_description demo_services empty_world alice
                                          jd_pdf ''Acme'' ''Engineer''))))) = 5) \<and>
   generate_questions (demo_services\<lparr>claude_questions := \<lambda>text company job. ApiError ''overloaded''\<rparr>)
     (''Senior'' @ [CHR 0x0A] @ ''Engineer'') ''Acme'' ''Engineer'' = Inl (Exception ''overloaded'') \<and>
   (\<exists>jd. snd (upload_job_description
                (demo_services\<lparr>claude_questions := \<lambda>text company job. ApiError ''overloaded''\<rparr>)
                empty_world alice jd_pdf ''Acme'' ''Engineer'') = Inr jd \<and>
         jd_status jd = ERROR \<and> jd_error_message jd = Some ''overloaded'' \<and>
         filter (\<lambda>q. q_job_description_id q = jd_id jd)
           (questions (db (fst (upload_job_description
                (demo_services\<lparr>claude_questions := \<lambda>text company job. ApiError ''overloaded''\<rparr>)
                empty_world alice jd_pdf ''Acme'' ''Engineer'')))) = [])"
proof -
  let ?down = "demo_services\<lparr>claude_questions := \<lambda>text company job. ApiError ''overloaded''\<rparr>"
  let ?text = "''Senior'' @ [CHR 0x0A] @ ''Engineer''"
  have saved: "save_pdf demo_services (r2 empty_world) (content jd_pdf) (filename jd_pdf) =
     ([(''pdfs/u.pdf'', [37, 80, 68, 70], ''application/pdf'')], Inr (''pdfs/u.pdf'', ?text))"
    using demo_save_pdf by (simp add: empty_world_def)
  have saved': "save_pdf ?down (r2 empty_world) (content jd_pdf) (filename jd_pdf) =
     ([(''pdfs/u.pdf'', [37, 80, 68, 70], ''application/pdf'')], Inr (''pdfs/u.pdf'', ?text))"
    using demo_save_pdf
    by (simp add: empty_world_def save_pdf_def extract_pdf_text_def demo_services_def)
  have fresh: "\<forall>q\<in>set (questions (db empty_world)). q_job_description_id q \<noteq> uuid4 demo_services 1"
    by (simp add: empty_world_def)
  have fresh': "\<forall>q\<in>set (questions (db empty_world)). q_job_description_id q \<noteq> uuid4 ?down 1"
    by (simp add: empty_world_def)
  have gen: "generate_questions demo_services ?text ''Acme'' ''Engineer'' =
               Inr [''q1'', ''q2'', ''q3'', ''q4'', ''q5'']"
    by (simp add: generate_questions_def messages_parse_def QuestionsList_valid_def
        demo_services_def)
  have gen': "generate_questions ?down ?text ''Acme'' ''Engineer'' = Inl (Exception ''overloaded'')"
    by (simp add: generate_questions_def messages_parse_def)
  note ok = upload_generation_outcome [OF jd_pdf_name jd_pdf_size saved fresh surjective_pairing,
      where current_user = alice and company_name = "''Acme''" and job_title = "''Engineer''"]
  note failed = upload_generation_outcome [OF jd_pdf_name jd_pdf_size saved' fresh' surjective_pairing,
      where current_user = alice and company_name = "''Acme''" and job_title = "''Engineer''"]
  from ok gen have first: "\<exists>jd. snd (upload_job_description demo_services empty_world alice jd_pdf ''Acme'' ''Engineer'')
            = Inr jd \<and>
         jd_status jd = QUESTIONS_GENERATED \<and>
         length (filter (\<lambda>q. q_job_description_id q = jd_id jd)
                   (questions (db (fst (upload_job_description demo_services empty_world alice
                                          jd_pdf ''Acme'' ''Engineer''))))) = 5"
    by blast
  from failed gen' have second: "\<exists>jd. snd (upload_job_description ?down
                empty_world alice jd_pdf ''Acme'' ''Engineer'') = Inr jd \<and>
         jd_status jd = ERROR \<and> jd_error_message jd = Some ''overloaded'' \<and>
         filter (\<lambda>q. q_job_description_id q = jd_id jd)
           (questions (db (fst (upload_job_description ?down
                empty_world alice jd_pdf ''Acme'' ''Engineer'')))) = []"
    by fastforce
  have none: "questions (db empty_world) = []"
    by (simp add: empty_world_def)
  from jd_pdf_name jd_pdf_size none gen gen' first second show ?thesis
    by blast
qed

text \<open>
  C3. Once the PDF is stored and the row created, a failure of question generation does not
  fail the request: the handler returns the job description (status 201), and the returned
  row, which is the one in the table, has status \<open>ERROR\<close> and the message of the exception in
  \<open>error_message\<close>.
\<close>

theorem generation_failure_returns_job_description:
  assumes pdf: "endswith (lower (filename file)) ''.pdf''"
    and size: "length (content file) \<le> 10 * 1024 * 1024"
    and saved: "save_pdf svc (r2 w) (content file) (filename file) =
                  (b, Inr (file_path, extracted_text))"
    and failed: "generate_questions svc extracted_text company_name job_title = Inl e"
  shows "\<exists>w' jd. upload_job_description svc w current_user file company_name job_title = (w', Inr jd) \<and>
           post_status_code
             (snd (upload_job_description svc w current_user file company_name job_title))
             = HTTP_201_CREATED \<and>
           jd \<in> set (job_descriptions (db w')) \<and>
           jd_user_id jd = u_id current_user \<and>
           jd_status jd = ERROR \<and> jd_error_message jd = Some (str e)"
  using assms
  by (simp add: upload_job_description_def Let_def add_job_description_def
      update_job_description_def)

theorem generation_failure_returns_job_description_witness:
  "endswith (lower (filename jd_pdf)) ''.pdf'' \<and>
   length (content jd_pdf) \<le> 10 * 1024 * 1024 \<and>
   generate_questions (demo_services\<lparr>claude_questions := \<lambda>text company job. Message None\<rparr>)
     (''Senior'' @ [CHR 0x0A] @ ''Engineer'') ''Acme'' ''Engineer''
     = Inl (Exception ''Failed to parse questions from Claude response'') \<and>
   (\<exists>w' jd. upload_job_description
              (demo_services\<lparr>claude_questions := \<lambda>text company job. Message None\<rparr>)
              empty_world alice jd_pdf ''Acme'' ''Engineer'' = (w', Inr jd) \<and>
           jd \<in> set (job_descriptions (db w')) \<and>
           jd_status jd = ERROR \<and>
           jd_error_message jd = Some ''Failed to parse questions from Claude response'')"
proof -
  let ?mute = "demo_services\<lparr>claude_questions := \<lambda>text company job. Message None\<rparr>"
  let ?text = "''Senior'' @ [CHR 0x0A] @ ''Engineer''"
  have saved: "save_pdf ?mute (r2 empty_world) (content jd_pdf) (filename jd_pdf) =
     ([(''pdfs/u.pdf'', [37, 80, 68, 70], ''application/pdf'')], Inr (''pdfs/u.pdf'', ?text))"
    using demo_save_pdf
    by (simp add: empty_world_def save_pdf_def extract_pdf_text_def demo_services_def)
  have gen: "generate_questions ?mute ?text ''Acme'' ''Engineer'' =
               Inl (Exception ''Failed to parse questions from Claude response'')"
    by (simp add: generate_questions_def messages_parse_def)
  from generation_failure_returns_job_description [OF jd_pdf_name jd_pdf_size saved gen, where current_user = alice]
    jd_pdf_name jd_pdf_size gen
  show ?thesis by fastforce
qed

section \<open>Submitting a response\<close>

lemma answer_wav_size: "length (content answer_wav) \<le> 50 * 1024 * 1024"
  by (simp add: answer_wav_def)

lemma alice_question:
  "find (\<lambda>q. q_id q = ''q-1'' \<and> q_user_id q = u_id alice) (questions (db interview_world))
     = Some acme_question"
  by (simp add: interview_world_def acme_question_def alice_def)

lemma alice_job:
  "find (\<lambda>j. jd_id j = q_job_description_id acme_question) (job_descriptions (db interview_world))
     = Some acme_job"
  by (simp add: interview_world_def acme_question_def acme_job_def)

lemma demo_save_audio:
  "save_audio demo_services [] (content answer_wav) (filename answer_wav) =
     ([(''audio/u.wav'', [82, 73, 70, 70], ''audio/wav'')], Inr ''audio/u.wav'')"
  by (simp add: save_audio_def demo_services_def answer_wav_def Path_suffix_def path_name_def
      Let_def)




text \<open>
  C5. When the response row has been persisted (the submission was accepted, stored and
  transcribed) and the evaluation then fails, the request aborts with status 500; the final
  world holds the new response row and the stored audio, the table of scores is the one the
  request started in, and, the new response id being referred to by no earlier score, no score
  row belongs to the new response. Nothing removes the row.
\<close>

theorem evaluation_failure_leaves_unscored_response:
  assumes found: "find (\<lambda>q. q_id q = question_id \<and> q_user_id q = u_id current_user)
                    (questions (db w)) = Some question"
    and parent: "find (\<lambda>j. jd_id j = q_job_description_id question) (job_descriptions (db w))
                   = Some job_description"
    and size: "length (content audio_file) \<le> 50 * 1024 * 1024"
    and saved: "save_audio svc (r2 w) (content audio_file) (filename audio_file) =
                  (b, Inr audio_path)"
    and heard: "transcribe svc audio_path = Inr transcript"
    and failed: "evaluate_response svc (jd_extracted_text job_description)
                   (q_question_text question) transcript = Inl e"
    and fresh: "\<forall>s\<in>set (response_scores (db w)). rs_response_id s \<noteq> uuid4 svc 1"
    and row: "response = \<lparr>r_id = uuid4 svc 1, r_question_id = question_id,
                 r_user_id = u_id current_user, r_audio_path = audio_path,
                 r_transcript = transcript, r_created_at = utcnow svc\<rparr>"
  shows "submit_response svc w current_user question_id audio_file =
           (\<lparr>db = (db w)\<lparr>responses := responses (db w) @ [response]\<rparr>, r2 = b\<rparr>,
            Inl (HTTPException HTTP_500_INTERNAL_SERVER_ERROR
                   (''Failed to process response: '' @ str e))) \<and>
         response \<in> set (responses (db (fst (submit_response svc w current_user question_id
                                               audio_file)))) \<and>
         response_scores (db (fst (submit_response svc w current_user question_id audio_file)))
           = response_scores (db w) \<and>
         (\<forall>s\<in>set (response_scores (db (fst (submit_response svc w current_user question_id
                                                audio_file)))).
            rs_response_id s \<noteq> r_id response)"
proof -
  from found have qid: "q_id question = question_id"
    by (auto simp: find_Some_iff)
  have run: "submit_response svc w current_user question_id audio_file =
           (\<lparr>db = (db w)\<lparr>responses := responses (db w) @ [response]\<rparr>, r2 = b\<rparr>,
            Inl (HTTPException HTTP_500_INTERNAL_SERVER_ERROR
                   (''Failed to process response: '' @ str e)))"
    using found parent size saved heard failed qid row
    by (simp add: submit_response_def Let_def add_response_def)
  show ?thesis
    using fresh by (simp add: run row)
qed

theorem evaluation_failure_leaves_unscored_response_witness:
  "evaluate_response
     (demo_services\<lparr>claude_evaluation := \<lambda>text question answer. ApiError ''overloaded''\<rparr>)
     (jd_extracted_text acme_job) (q_question_text acme_question) ''I led a team''
     = Inl (Exception ''overloaded'') \<and>
   snd (submit_response
          (demo_services\<lparr>claude_evaluation := \<lambda>text question answer. ApiError ''overloaded''\<rparr>)
          interview_world alice ''q-1'' answer_wav) =
     Inl (HTTPException HTTP_500_INTERNAL_SERVER_ERROR ''Failed to process response: overloaded'') \<and>
   responses (db (fst (submit_response
          (demo_services\<lparr>claude_evaluation := \<lambda>text question answer. ApiError ''overloaded''\<rparr>)
          interview_world alice ''q-1'' answer_wav))) =
     [\<lparr>r_id = ''uu'', r_question_id = ''q-1'', r_user_id = ''alice'',
       r_audio_path = ''audio/u.wav'', r_transcript = ''I led a team'', r_created_at = 7\<rparr>] \<and>
   response_scores (db (fst (submit_response
          (demo_services\<lparr>claude_evaluation := \<lambda>text question answer. ApiError ''overloaded''\<rparr>)
          interview_world alice ''q-1'' answer_wav))) = []"
proof -
  let ?down = "demo_services\<lparr>claude_evaluation := \<lambda>text question answer. ApiError ''overloaded''\<rparr>"
  let ?row = "\<lparr>r_id = uuid4 ?down 1, r_question_id = ''q-1'', r_user_id = u_id alice,
       r_audio_path = ''audio/u.wav'', r_transcript = ''I led a team'',
       r_created_at = utcnow ?down\<rparr>"
  have saved: "save_audio ?down (r2 interview_world) (content answer_wav)
                 (filename answer_wav) =
               ([(''audio/u.wav'', [82, 73, 70, 70], ''audio/wav'')], Inr ''audio/u.wav'')"
    using demo_save_audio by (simp add: interview_world_def save_audio_def demo_services_def)
  have heard: "transcribe ?down ''audio/u.wav'' = Inr ''I led a team''"
    by (simp add: transcribe_def demo_services_def)
  have failed: "evaluate_response ?down (jd_extracted_text acme_job)
                  (q_question_text acme_question) ''I led a team'' = Inl (Exception ''overloaded'')"
    by (simp add: evaluate_response_def messages_parse_def)
  have fresh: "\<forall>s\<in>set (response_scores (db interview_world)). rs_response_id s \<noteq> uuid4 ?down 1"
    by (simp add: interview_world_def)
  have ids: "uuid4 ?down 1 = ''uu''" "utcnow ?down = 7" "u_id alice = ''alice''"
    by (simp_all add: demo_services_def alice_def eval_nat_numeral)
  have before: "responses (db interview_world) = []" "response_scores (db interview_world) = []"
    by (simp_all add: interview_world_def)
  from evaluation_failure_leaves_unscored_response
         [OF alice_question alice_job answer_wav_size saved heard failed fresh refl]
  have "submit_response ?down interview_world alice ''q-1'' answer_wav =
           (\<lparr>db = (db interview_world)\<lparr>responses := responses (db interview_world) @ [?row]\<rparr>,
             r2 = [(''audio/u.wav'', [82, 73, 70, 70], ''audio/wav'')]\<rparr>,
            Inl (HTTPException HTTP_500_INTERNAL_SERVER_ERROR
                   (''Failed to process response: '' @ str (Exception ''overloaded''))))"
    by blast
  with failed ids before show ?thesis by simp
qed

section \<open>Exceptions at the boundary of the handlers\<close>

text \<open>
  C6, as amended. In the response-submission handler every adapter exception that reaches the
  outer \<open>except\<close> (from storing the audio, from transcription, from evaluation) becomes a
  response with status 500 whose detail is \<open>Failed to process response: \<close> followed by the
  message of that exception. In the upload handler an exception of \<open>save_pdf\<close> (storage or text
  extraction) becomes a response with status 500 whose detail is the fixed text
  \<open>Failed to process job description\<close>, whatever the message of the exception.
\<close>

theorem adapter_exceptions_become_500:
  "(\<forall>b e. endswith (lower (filename pdf_file)) ''.pdf'' \<and>
          length (content pdf_file) \<le> 10 * 1024 * 1024 \<and>
          save_pdf svc (r2 w) (content pdf_file) (filename pdf_file) = (b, Inl e) \<longrightarrow>
          snd (upload_job_description svc w current_user pdf_file company_name job_title) =
            Inl (HTTPException HTTP_500_INTERNAL_SERVER_ERROR ''Failed to process job description'')) \<and>
   (\<forall>question b e.
          find (\<lambda>q. q_id q = question_id \<and> q_user_id q = u_id current_user) (questions (db w))
            = Some question \<and>
          length (content audio_file) \<le> 50 * 1024 * 1024 \<and>
          save_audio svc (r2 w) (content audio_file) (filename audio_file) = (b, Inl e) \<longrightarrow>
          snd (submit_response svc w current_user question_id audio_file) =
            Inl (HTTPException HTTP_500_INTERNAL_SERVER_ERROR
                   (''Failed to process response: '' @ str e))) \<and>
   (\<forall>question b audio_path e.
          find (\<lambda>q. q_id q = question_id \<and> q_user_id q = u_id current_user) (questions (db w))
            = Some question \<and>
          length (content audio_file) \<le> 50 * 1024 * 1024 \<and>
          save_audio svc (r2 w) (content audio_file) (filename audio_file) = (b, Inr audio_path) \<and>
          transcribe svc audio_path = Inl e \<longrightarrow>
          snd (submit_response svc w current_user question_id audio_file) =
            Inl (HTTPException HTTP_500_INTERNAL_SERVER_ERROR
                   (''Failed to process response: '' @ str e))) \<and>
   (\<forall>question job_description b audio_path transcript e.
          find (\<lambda>q. q_id q = question_id \<and> q_user_id q = u_id current_user) (questions (db w))
            = Some question \<and>
          find (\<lambda>j. jd_id j = q_job_description_id question) (job_descriptions (db w))
            = Some job_description \<and>
          length (content audio_file) \<le> 50 * 1024 * 1024 \<and>
          save_audio svc (r2 w) (content audio_file) (filename audio_file) = (b, Inr audio_path) \<and>
          transcribe svc audio_path = Inr transcript \<and>
          evaluate_response svc (jd_extracted_text job_description) (q_question_text question)
            transcript = Inl e \<longrightarrow>
          snd (submit_response svc w current_user question_id audio_file) =
            Inl (HTTPException HTTP_500_INTERNAL_SERVER_ERROR
                   (''Failed to process response: '' @ str e)))"
proof (intro conjI allI impI)
  fix b e
  assume "endswith (lower (filename pdf_file)) ''.pdf'' \<and>
          length (content pdf_file) \<le> 10 * 1024 * 1024 \<and>
          save_pdf svc (r2 w) (content pdf_file) (filename pdf_file) = (b, Inl e)"
  then show "snd (upload_job_description svc w current_user pdf_file company_name job_title) =
            Inl (HTTPException HTTP_500_INTERNAL_SERVER_ERROR ''Failed to process job description'')"
    by (simp add: upload_job_description_def)
next
  fix question b e
  assume "find (\<lambda>q. q_id q = question_id \<and> q_user_id q = u_id current_user) (questions (db w))
            = Some question \<and>
          length (content audio_file) \<le> 50 * 1024 * 1024 \<and>
          save_audio svc (r2 w) (content audio_file) (filename audio_file) = (b, Inl e)"
  then show "snd (submit_response svc w current_user question_id audio_file) =
            Inl (HTTPException HTTP_500_INTERNAL_SERVER_ERROR
                   (''Failed to process response: '' @ str e))"
    by (simp add: submit_response_def Let_def)
next
  fix question b audio_path e
  assume "find (\<lambda>q. q_id q = question_id \<and> q_user_id q = u_id current_user) (questions (db w))
            = Some question \<and>
          length (content audio_file) \<le> 50 * 1024 * 1024 \<and>
          save_audio svc (r2 w) (content audio_file) (filename audio_file) = (b, Inr audio_path) \<and>
          transcribe svc audio_path = Inl e"
  then show "snd (submit_response svc w current_user question_id audio_file) =
            Inl (HTTPException HTTP_500_INTERNAL_SERVER_ERROR
                   (''Failed to process response: '' @ str e))"
    by (simp add: submit_response_def Let_def)
next
  fix question job_description b audio_path transcript e
  assume "find (\<lambda>q. q_id q = question_id \<and> q_user_id q = u_id current_user) (questions (db w))
            = Some question \<and>
          find (\<lambda>j. jd_id j = q_job_description_id question) (job_descriptions (db w))
            = Some job_description \<and>
          length (content audio_file) \<le> 50 * 1024 * 1024 \<and>
          save_audio svc (r2 w) (content audio_file) (filename audio_file) = (b, Inr audio_path) \<and>
          transcribe svc audio_path = Inr transcript \<and>
          evaluate_response svc (jd_extracted_text job_description) (q_question_text question)
            transcript = Inl e"
  then show "snd (submit_response svc w current_user question_id audio_file) =
            Inl (HTTPException HTTP_500_INTERNAL_SERVER_ERROR
                   (''Failed to process response: '' @ str e))"
    by (simp add: submit_response_def Let_def)
qed

theorem adapter_exceptions_become_500_witness:
  "save_pdf (demo_services\<lparr>put_object := \<lambda>key body content_type. Some (ClientError ''bucket unreachable'')\<rparr>)
     (r2 empty_world) (content jd_pdf) (filename jd_pdf) =
     ([], Inl (Exception ''Failed to save PDF to R2: bucket unreachable'')) \<and>
   snd (upload_job_description
          (demo_services\<lparr>put_object := \<lambda>key body content_type. Some (ClientError ''bucket unreachable'')\<rparr>)
          empty_world alice jd_pdf ''Acme'' ''Engineer'') =
     Inl (HTTPException HTTP_500_INTERNAL_SERVER_ERROR ''Failed to process job description'') \<and>
   save_audio (demo_services\<lparr>put_object := \<lambda>key body content_type. Some (ClientError ''bucket unreachable'')\<rparr>)
     (r2 interview_world) (content answer_wav) (filename answer_wav) =
     ([], Inl (Exception ''Failed to save audio to R2: bucket unreachable'')) \<and>
   snd (submit_response
          (demo_services\<lparr>put_object := \<lambda>key body content_type. Some (ClientError ''bucket unreachable'')\<rparr>)
          interview_world alice ''q-1'' answer_wav) =
     Inl (HTTPException HTTP_500_INTERNAL_SERVER_ERROR
            ''Failed to process response: Failed to save audio to R2: bucket unreachable'') \<and>
   transcribe (demo_services\<lparr>whisper_service := \<lambda>path. TranscriptionFailed (Exception ''no speech engine'')\<rparr>)
     ''audio/u.wav'' = Inl (Exception ''no speech engine'') \<and>
   snd (submit_response
          (demo_services\<lparr>whisper_service := \<lambda>path. TranscriptionFailed (Exception ''no speech engine'')\<rparr>)
          interview_world alice ''q-1'' answer_wav) =
     Inl (HTTPException HTTP_500_INTERNAL_SERVER_ERROR
            ''Failed to process response: no speech engine'') \<and>
   evaluate_response
     (demo_services\<lparr>claude_evaluation := \<lambda>text question answer. Message None\<rparr>)
     (jd_extracted_text acme_job) (q_question_text acme_question) ''I led a team''
     = Inl (Exception ''Failed to parse evaluation from Claude response'') \<and>
   snd (submit_response
          (demo_services\<lparr>claude_evaluation := \<lambda>text question answer. Message None\<rparr>)
          interview_world alice ''q-1'' answer_wav) =
     Inl (HTTPException HTTP_500_INTERNAL_SERVER_ERROR
            ''Failed to process response: Failed to parse evaluation from Claude response'')"
proof -
  let ?offline = "demo_services\<lparr>put_object := \<lambda>key body content_type. Some (ClientError ''bucket unreachable'')\<rparr>"
  let ?deaf = "demo_services\<lparr>whisper_service := \<lambda>path. TranscriptionFailed (Exception ''no speech engine'')\<rparr>"
  let ?mute = "demo_services\<lparr>claude_evaluation := \<lambda>text question answer. Message None\<rparr>"
  have pdf: "save_pdf ?offline (r2 empty_world) (content jd_pdf) (filename jd_pdf) =
               ([], Inl (Exception ''Failed to save PDF to R2: bucket unreachable''))"
    by (simp add: save_pdf_def empty_world_def Let_def)
  have audio: "save_audio ?offline (r2 interview_world) (content answer_wav) (filename answer_wav) =
               ([], Inl (Exception ''Failed to save audio to R2: bucket unreachable''))"
    by (simp add: save_audio_def interview_world_def Let_def)
  have saved_deaf: "save_audio ?deaf (r2 interview_world) (content answer_wav)
                      (filename answer_wav) =
               ([(''audio/u.wav'', [82, 73, 70, 70], ''audio/wav'')], Inr ''audio/u.wav'')"
    using demo_save_audio by (simp add: interview_world_def save_audio_def demo_services_def)
  have saved_mute: "save_audio ?mute (r2 interview_world) (content answer_wav)
                      (filename answer_wav) =
               ([(''audio/u.wav'', [82, 73, 70, 70], ''audio/wav'')], Inr ''audio/u.wav'')"
    using demo_save_audio by (simp add: interview_world_def save_audio_def demo_services_def)
  have unheard: "transcribe ?deaf ''audio/u.wav'' = Inl (Exception ''no speech engine'')"
    by (simp add: transcribe_def)
  have heard: "transcribe ?mute ''audio/u.wav'' = Inr ''I led a team''"
    by (simp add: transcribe_def demo_services_def)
  have unparsed: "evaluate_response ?mute (jd_extracted_text acme_job)
                    (q_question_text acme_question) ''I led a team''
                  = Inl (Exception ''Failed to parse evaluation from Claude response'')"
    by (simp add: evaluate_response_def messages_parse_def)
  from adapter_exceptions_become_500 [where svc = ?offline and w = empty_world and pdf_file = jd_pdf
      and current_user = alice and company_name = "''Acme''" and job_title = "''Engineer''"]
    jd_pdf_name jd_pdf_size pdf
  have first: "snd (upload_job_description ?offline empty_world alice jd_pdf ''Acme'' ''Engineer'') =
     Inl (HTTPException HTTP_500_INTERNAL_SERVER_ERROR ''Failed to process job description'')"
    by blast
  from adapter_exceptions_become_500 [where svc = ?offline and w = interview_world
      and current_user = alice and question_id = "''q-1''" and audio_file = answer_wav]
    alice_question answer_wav_size audio
  have "snd (submit_response ?offline interview_world alice ''q-1'' answer_wav) =
     Inl (HTTPException HTTP_500_INTERNAL_SERVER_ERROR
            (''Failed to process response: '' @
             str (Exception ''Failed to save audio to R2: bucket unreachable'')))"
    by blast
  then have second: "snd (submit_response ?offline interview_world alice ''q-1'' answer_wav) =
     Inl (HTTPException HTTP_500_INTERNAL_SERVER_ERROR
            ''Failed to process response: Failed to save audio to R2: bucket unreachable'')"
    by simp
  from adapter_exceptions_become_500 [where svc = ?deaf and w = interview_world
      and current_user = alice and question_id = "''q-1''" and audio_file = answer_wav]
    alice_question answer_wav_size saved_deaf unheard
  have "snd (submit_response ?deaf interview_world alice ''q-1'' answer_wav) =
     Inl (HTTPException HTTP_500_INTERNAL_SERVER_ERROR
            (''Failed to process response: '' @ str (Exception ''no speech engine'')))"
    by blast
  then have third: "snd (submit_response ?deaf interview_world alice ''q-1'' answer_wav) =
     Inl (HTTPException HTTP_500_INTERNAL_SERVER_ERROR
            ''Failed to process response: no speech engine'')"
    by simp
  from adapter_exceptions_become_500 [where svc = ?mute and w = interview_world
      and current_user = alice and question_id = "''q-1''" and audio_file = answer_wav]
    alice_question alice_job answer_wav_size saved_mute heard unparsed
  have "snd (submit_response ?mute interview_world alice ''q-1'' answer_wav) =
     Inl (HTTPException HTTP_500_INTERNAL_SERVER_ERROR
            (''Failed to process response: '' @
             str (Exception ''Failed to parse evaluation from Claude response'')))"
    by blast
  then have fourth: "snd (submit_response ?mute interview_world alice ''q-1'' answer_wav) =
     Inl (HTTPException HTTP_500_INTERNAL_SERVER_ERROR
            ''Failed to process response: Failed to parse evaluation from Claude response'')"
    by simp
  from pdf first audio second unheard third unparsed fourth show ?thesis by blast
qed

text \<open>
  The claim as it is stated has the upload handler expose the message of the exception. When
  the bucket cannot be reached, \<open>save_pdf\<close> raises an exception that carries the message of the
  storage client; the detail of the 500 response is the fixed text, and the message is no part
  of it.
\<close>

theorem upload_detail_hides_message_counterexample:
  "endswith (lower (filename jd_pdf)) ''.pdf'' \<and>
   length (content jd_pdf) \<le> 10 * 1024 * 1024 \<and>
   snd (save_pdf (demo_services\<lparr>put_object := \<lambda>key body content_type. Some (ClientError ''bucket unreachable'')\<rparr>)
          (r2 empty_world) (content jd_pdf) (filename jd_pdf)) =
     Inl (Exception ''Failed to save PDF to R2: bucket unreachable'') \<and>
   snd (upload_job_description
          (demo_services\<lparr>put_object := \<lambda>key body content_type. Some (ClientError ''bucket unreachable'')\<rparr>)
          empty_world alice jd_pdf ''Acme'' ''Engineer'') =
     Inl (HTTPException HTTP_500_INTERNAL_SERVER_ERROR ''Failed to process job description'') \<and>
   \<not> sublist (str (Exception ''Failed to save PDF to R2: bucket unreachable''))
       ''Failed to process job description'' \<and>
   \<not> sublist ''bucket unreachable'' ''Failed to process job description''"
proof -
  let ?offline = "demo_services\<lparr>put_object := \<lambda>key body content_type. Some (ClientError ''bucket unreachable'')\<rparr>"
  have pdf: "save_pdf ?offline (r2 empty_world) (content jd_pdf) (filename jd_pdf) =
               ([], Inl (Exception ''Failed to save PDF to R2: bucket unreachable''))"
    by (simp add: save_pdf_def empty_world_def Let_def)
  have run: "snd (upload_job_description ?offline empty_world alice jd_pdf ''Acme'' ''Engineer'') =
     Inl (HTTPException HTTP_500_INTERNAL_SERVER_ERROR ''Failed to process job description'')"
    using jd_pdf_name jd_pdf_size pdf by (simp add: upload_job_description_def)
  have long: "\<not> sublist (str (Exception ''Failed to save PDF to R2: bucket unreachable''))
       ''Failed to process job description''"
    using sublist_length_le [of "''Failed to save PDF to R2: bucket unreachable''"
        "''Failed to process job description''"]
    by auto
  have short: "\<not> sublist ''bucket unreachable'' ''Failed to process job description''"
    by (simp add: sublist_Cons_right)
  from jd_pdf_name jd_pdf_size pdf run long short show ?thesis by simp
qed

section \<open>Listings\<close>

lemma set_responses_with_scores:
  "set (responses_with_scores d question_id) =
     {(r, s). r \<in> set (responses d) \<and> s \<in> set (response_scores d) \<and>
              r_id r = rs_response_id s \<and> r_question_id r = question_id}"
  by (auto simp: responses_with_scores_def newest_first_def)

subsection \<open>The handlers keep the database well formed\<close>












subsection \<open>Ownership in the listings\<close>












section \<open>Text extraction and URL resolution\<close>

lemma extract_pages_texts:
  "extract_pages (map Inr texts) text_parts = Inr (text_parts @ filter (\<lambda>t. t \<noteq> []) texts)"
  by (induction texts arbitrary: text_parts) auto

lemma extract_pages_raises:
  "Inl e \<in> set pages \<Longrightarrow> \<exists>e'. extract_pages pages text_parts = Inl e'"
proof (induction pages arbitrary: text_parts)
  case Nil
  then show ?case by simp
next
  case (Cons p ps)
  show ?case
  proof (cases p)
    case (Inl a)
    then show ?thesis by simp
  next
    case (Inr t)
    with Cons.prems have "Inl e \<in> set ps" by auto
    from Cons.IH [OF this] Inr show ?thesis by simp
  qed
qed

text \<open>
  C8, as amended. When every page of the PDF yields its text, \<open>extract_pdf_text\<close> returns the
  texts of the pages in page order, joined with one newline between consecutive non-empty
  texts, and trimmed of leading and trailing white space (\<open>str.strip\<close>, which also removes a
  no-break space); a page whose text is empty contributes nothing, not even a separator, and
  causes no error. When the reader or any page raises, extraction fails as a whole with
  \<open>Failed to extract text from PDF\<close>, whatever the earlier pages gave. A failed extraction
  makes \<open>save_pdf\<close> raise, and the upload handler then answers with status 500 and leaves the
  tables as they were.
\<close>

theorem extract_pdf_text_joins_page_texts:
  "(\<forall>texts. PdfReader svc pdf = Inr (map Inr texts) \<longrightarrow>
      extract_pdf_text svc pdf =
        Inr (strip (join [CHR 0x0A] (filter (\<lambda>t. t \<noteq> []) texts)))) \<and>
   (\<forall>e pages. PdfReader svc pdf = Inl e \<or> PdfReader svc pdf = Inr pages \<and> Inl e \<in> set pages \<longrightarrow>
      extract_pdf_text svc pdf = Inl (Exception ''Failed to extract text from PDF'')) \<and>
   (\<forall>e b name. extract_pdf_text svc pdf = Inl e \<longrightarrow>
      (\<exists>e'. snd (save_pdf svc b pdf name) = Inl e')) \<and>
   (\<forall>e. endswith (lower (filename pdf_file)) ''.pdf'' \<and>
        length (content pdf_file) \<le> 10 * 1024 * 1024 \<and>
        extract_pdf_text svc (content pdf_file) = Inl e \<longrightarrow>
      snd (upload_job_description (svc :: services) w current_user pdf_file company_name job_title) =
        Inl (HTTPException HTTP_500_INTERNAL_SERVER_ERROR ''Failed to process job description'') \<and>
      db (fst (upload_job_description svc w current_user pdf_file company_name job_title)) = db w)"
proof -
  have joined: "extract_pdf_text svc pdf =
        Inr (strip (join [CHR 0x0A] (filter (\<lambda>t. t \<noteq> []) texts)))"
    if "PdfReader svc pdf = Inr (map Inr texts)" for texts
    using that by (simp add: extract_pdf_text_def extract_pages_texts)
  have whole: "extract_pdf_text svc pdf = Inl (Exception ''Failed to extract text from PDF'')"
    if "PdfReader svc pdf = Inl e \<or> PdfReader svc pdf = Inr pages \<and> Inl e \<in> set pages"
    for e pages
    using that
  proof
    assume "PdfReader svc pdf = Inl e"
    then show ?thesis by (simp add: extract_pdf_text_def)
  next
    assume read: "PdfReader svc pdf = Inr pages \<and> Inl e \<in> set pages"
    then obtain e' where "extract_pages pages [] = Inl e'"
      using extract_pages_raises by blast
    with read show ?thesis by (simp add: extract_pdf_text_def)
  qed
  have raised: "\<exists>e'. snd (save_pdf svc b pdf name) = Inl e'"
    if "extract_pdf_text svc pdf = Inl e" for e b name
    using that by (simp add: save_pdf_def Let_def split: option.splits exn.splits)
  have aborted:
    "snd (upload_job_description svc w current_user pdf_file company_name job_title) =
        Inl (HTTPException HTTP_500_INTERNAL_SERVER_ERROR ''Failed to process job description'') \<and>
      db (fst (upload_job_description svc w current_user pdf_file company_name job_title)) = db w"
    if failed: "endswith (lower (filename pdf_file)) ''.pdf'' \<and>
        length (content pdf_file) \<le> 10 * 1024 * 1024 \<and>
        extract_pdf_text svc (content pdf_file) = Inl e" for e
  proof -
    from failed
    have "\<exists>b e'. save_pdf svc (r2 w) (content pdf_file) (filename pdf_file) = (b, Inl e')"
      by (simp add: save_pdf_def Let_def split: option.splits exn.splits)
    then obtain b e' where
      "save_pdf svc (r2 w) (content pdf_file) (filename pdf_file) = (b, Inl e')"
      by blast
    with failed show ?thesis
      by (simp add: upload_job_description_def)
  qed
  from joined whole raised aborted show ?thesis
    by blast
qed

theorem extract_pdf_text_joins_page_texts_witness:
  "PdfReader demo_services (content jd_pdf) = Inr (map Inr [''Senior'', [], ''Engineer'' @ [CHR 0xA0]]) \<and>
   extract_pdf_text demo_services (content jd_pdf) = Inr (''Senior'' @ [CHR 0x0A] @ ''Engineer'') \<and>
   PdfReader (demo_services\<lparr>PdfReader := \<lambda>body. Inr [Inr ''Senior'', Inl (Exception ''bad stream'')]\<rparr>)
     (content jd_pdf) = Inr [Inr ''Senior'', Inl (Exception ''bad stream'')] \<and>
   extract_pdf_text
     (demo_services\<lparr>PdfReader := \<lambda>body. Inr [Inr ''Senior'', Inl (Exception ''bad stream'')]\<rparr>)
     (content jd_pdf) = Inl (Exception ''Failed to extract text from PDF'') \<and>
   (\<exists>e'. snd (save_pdf
          (demo_services\<lparr>PdfReader := \<lambda>body. Inr [Inr ''Senior'', Inl (Exception ''bad stream'')]\<rparr>)
          [] (content jd_pdf) (filename jd_pdf)) = Inl e') \<and>
   snd (upload_job_description
          (demo_services\<lparr>PdfReader := \<lambda>body. Inr [Inr ''Senior'', Inl (Exception ''bad stream'')]\<rparr>)
          empty_world alice jd_pdf ''Acme'' ''Engineer'') =
     Inl (HTTPException HTTP_500_INTERNAL_SERVER_ERROR ''Failed to process job description'') \<and>
   db (fst (upload_job_description
          (demo_services\<lparr>PdfReader := \<lambda>body. Inr [Inr ''Senior'', Inl (Exception ''bad stream'')]\<rparr>)
          empty_world alice jd_pdf ''Acme'' ''Engineer'')) = db empty_world"
proof -
  let ?torn = "demo_services\<lparr>PdfReader := \<lambda>body. Inr [Inr ''Senior'', Inl (Exception ''bad stream'')]\<rparr>"
  have read: "PdfReader demo_services (content jd_pdf) = Inr (map Inr [''Senior'', [], ''Engineer'' @ [CHR 0xA0]])"
    by (simp add: demo_services_def)
  have torn: "PdfReader ?torn (content jd_pdf) = Inr [Inr ''Senior'', Inl (Exception ''bad stream'')]"
    by simp
  have page: "Inl (Exception ''bad stream'') \<in> set [Inr ''Senior'', Inl (Exception ''bad stream'')]"
    by simp
  note good = extract_pdf_text_joins_page_texts [where svc = demo_services and pdf = "content jd_pdf"]
  note bad = extract_pdf_text_joins_page_texts [where svc = ?torn and pdf = "content jd_pdf"
      and pdf_file = jd_pdf and w = empty_world and current_user = alice
      and company_name = "''Acme''" and job_title = "''Engineer''"]
  from good read have "extract_pdf_text demo_services (content jd_pdf) =
      Inr (strip (join [CHR 0x0A] (filter (\<lambda>t. t \<noteq> []) [''Senior'', [], ''Engineer'' @ [CHR 0xA0]])))"
    by blast
  then have first: "extract_pdf_text demo_services (content jd_pdf) =
      Inr (''Senior'' @ [CHR 0x0A] @ ''Engineer'')"
    by (simp add: strip_def isspace_def)
  from bad torn page have second: "extract_pdf_text ?torn (content jd_pdf) =
      Inl (Exception ''Failed to extract text from PDF'')"
    by blast
  from bad second have third: "\<exists>e'. snd (save_pdf ?torn [] (content jd_pdf) (filename jd_pdf)) = Inl e'"
    by blast
  from bad second jd_pdf_name jd_pdf_size
  have fourth: "snd (upload_job_description ?torn empty_world alice jd_pdf ''Acme'' ''Engineer'') =
     Inl (HTTPException HTTP_500_INTERNAL_SERVER_ERROR ''Failed to process job description'') \<and>
   db (fst (upload_job_description ?torn empty_world alice jd_pdf ''Acme'' ''Engineer''))
     = db empty_world"
    by blast
  from read first torn second third fourth show ?thesis by blast
qed

text \<open>
  The claim as it is stated has the result be the concatenation of the page texts, trimmed.
  For a document whose pages give \<open>Senior\<close>, nothing and \<open>Engineer\<close> followed by a
  no-break space, the trimmed concatenation is \<open>SeniorEngineer\<close>, while \<open>extract_pdf_text\<close>
  returns the two texts with a newline between them.
\<close>

theorem extract_pdf_text_newline_counterexample:
  "PdfReader demo_services (content jd_pdf) = Inr (map Inr [''Senior'', [], ''Engineer'' @ [CHR 0xA0]]) \<and>
   spec_concatenated_text [''Senior'', [], ''Engineer'' @ [CHR 0xA0]] = ''SeniorEngineer'' \<and>
   extract_pdf_text demo_services (content jd_pdf) = Inr (''Senior'' @ [CHR 0x0A] @ ''Engineer'') \<and>
   extract_pdf_text demo_services (content jd_pdf) \<noteq>
     Inr (spec_concatenated_text [''Senior'', [], ''Engineer'' @ [CHR 0xA0]])"
  by (simp add: demo_services_def extract_pdf_text_def spec_concatenated_text_def strip_def
      isspace_def)

text \<open>
  C9. For every storage key, \<open>get_file_url\<close> returns the configured public base URL, a slash
  and the key whenever a (non-empty) public base URL is configured; otherwise its result is
  that of the S3 client's \<open>generate_presigned_url\<close> for \<open>get_object\<close> on the bucket and the
  key with \<open>ExpiresIn\<close> equal to 3600 seconds, one hour; an error of the signer is raised again.
\<close>

theorem get_file_url_resolution:
  "(\<forall>base. public_url self = Some base \<and> base \<noteq> [] \<longrightarrow>
      get_file_url self r2_key = Inr (base @ ''/'' @ r2_key)) \<and>
   (public_url self = None \<or> public_url self = Some [] \<longrightarrow>
      get_file_url self r2_key =
        generate_presigned_url self ''get_object'' (bucket_name self) r2_key 3600)"
  by (auto simp: get_file_url_def)

theorem get_file_url_resolution_witness:
  "public_url (demo_services\<lparr>public_url := Some ''https://cdn.example''\<rparr>)
     = Some ''https://cdn.example'' \<and>
   get_file_url (demo_services\<lparr>public_url := Some ''https://cdn.example''\<rparr>) ''pdfs/u.pdf''
     = Inr ''https://cdn.example/pdfs/u.pdf'' \<and>
   public_url demo_services = None \<and>
   get_file_url demo_services ''pdfs/u.pdf''
     = Inr ''https://r2.example/interview-prep/pdfs/u.pdf?X-Amz-Expires=3600''"
proof -
  have configured: "public_url (demo_services\<lparr>public_url := Some ''https://cdn.example''\<rparr>)
     = Some ''https://cdn.example''"
    by simp
  have absent: "public_url demo_services = None"
    by (simp add: demo_services_def)
  from get_file_url_resolution [where self = "demo_services\<lparr>public_url := Some ''https://cdn.example''\<rparr>"
      and r2_key = "''pdfs/u.pdf''"] configured
  have first: "get_file_url (demo_services\<lparr>public_url := Some ''https://cdn.example''\<rparr>) ''pdfs/u.pdf''
     = Inr ''https://cdn.example/pdfs/u.pdf''"
    by simp
  from get_file_url_resolution [where self = demo_services and r2_key = "''pdfs/u.pdf''"] absent
  have "get_file_url demo_services ''pdfs/u.pdf'' =
     generate_presigned_url demo_services ''get_object'' (bucket_name demo_services) ''pdfs/u.pdf''
       3600"
    by simp
  then have second: "get_file_url demo_services ''pdfs/u.pdf''
     = Inr ''https://r2.example/interview-prep/pdfs/u.pdf?X-Amz-Expires=3600''"
    by (simp add: demo_services_def)
  from configured first absent second show ?thesis by blast
qed

text \<open>
  C10. The listing of responses joins \<open>Response\<close> with \<open>ResponseScore\<close> on the response id:
  for a question of the caller, a response that no score row refers to appears in no item of
  the result, every pair of a response to the question and a score row of that response does
  appear, and every item comes from such a pair.
\<close>

theorem list_responses_inner_join:
  assumes found: "find (\<lambda>q. q_id q = question_id \<and> q_user_id q = u_id current_user)
                    (questions (db w)) = Some question"
  shows "\<exists>items. list_responses w current_user question_id = Inr items \<and>
           (\<forall>r\<in>set (responses (db w)).
              (\<forall>s\<in>set (response_scores (db w)). rs_response_id s \<noteq> r_id r) \<longrightarrow>
              (\<forall>item\<in>set items. li_response_id item \<noteq> r_id r)) \<and>
           (\<forall>r\<in>set (responses (db w)). \<forall>s\<in>set (response_scores (db w)).
              r_question_id r = question_id \<and> rs_response_id s = r_id r \<longrightarrow>
              list_item (r, s) \<in> set items) \<and>
           (\<forall>item\<in>set items. \<exists>r\<in>set (responses (db w)). \<exists>s\<in>set (response_scores (db w)).
              item = list_item (r, s) \<and> r_question_id r = question_id \<and>
              rs_response_id s = r_id r)"
proof -
  let ?items = "map list_item (responses_with_scores (db w) question_id)"
  have run: "list_responses w current_user question_id = Inr ?items"
    using found by (simp add: list_responses_def)
  have omitted: "\<forall>r\<in>set (responses (db w)).
              (\<forall>s\<in>set (response_scores (db w)). rs_response_id s \<noteq> r_id r) \<longrightarrow>
              (\<forall>item\<in>set ?items. li_response_id item \<noteq> r_id r)"
    by (auto simp: set_responses_with_scores list_item_def)
  have listed: "\<forall>r\<in>set (responses (db w)). \<forall>s\<in>set (response_scores (db w)).
              r_question_id r = question_id \<and> rs_response_id s = r_id r \<longrightarrow>
              list_item (r, s) \<in> set ?items"
    by (auto simp: set_responses_with_scores)
  have only: "\<forall>item\<in>set ?items. \<exists>r\<in>set (responses (db w)). \<exists>s\<in>set (response_scores (db w)).
              item = list_item (r, s) \<and> r_question_id r = question_id \<and>
              rs_response_id s = r_id r"
    by (fastforce simp: set_responses_with_scores)
  from run omitted listed only show ?thesis by blast
qed

theorem list_responses_inner_join_witness:
  "find (\<lambda>q. q_id q = ''q-1'' \<and> q_user_id q = u_id alice) (questions (db answered_world))
     = Some acme_question \<and>
   unscored_response \<in> set (responses (db answered_world)) \<and>
   r_question_id unscored_response = ''q-1'' \<and>
   \<not> (\<exists>s\<in>set (response_scores (db answered_world)). rs_response_id s = r_id unscored_response) \<and>
   list_responses answered_world alice ''q-1'' = Inr [list_item (scored_response, first_score)] \<and>
   li_response_id (list_item (scored_response, first_score)) \<noteq> r_id unscored_response"
proof -
  have asked: "find (\<lambda>q. q_id q = ''q-1'' \<and> q_user_id q = u_id alice)
                 (questions (db answered_world)) = Some acme_question"
    by (simp add: answered_world_def acme_question_def alice_def)
  have member: "unscored_response \<in> set (responses (db answered_world))"
    by (simp add: answered_world_def)
  have question: "r_question_id unscored_response = ''q-1''"
    by (simp add: unscored_response_def)
  have orphan: "\<forall>s\<in>set (response_scores (db answered_world)).
                  rs_response_id s \<noteq> r_id unscored_response"
    by (simp add: answered_world_def first_score_def unscored_response_def)
  have rows: "responses_with_scores (db answered_world) ''q-1'' = [(scored_response, first_score)]"
    by (simp add: responses_with_scores_def newest_first_def answered_world_def scored_response_def
        unscored_response_def first_score_def)
  have items: "list_responses answered_world alice ''q-1'' =
                 Inr [list_item (scored_response, first_score)]"
    by (simp add: list_responses_def rows asked)
  from list_responses_inner_join [OF asked] items member orphan
  have "\<forall>item\<in>set [list_item (scored_response, first_score)].
          li_response_id item \<noteq> r_id unscored_response"
    by auto
  then have absent: "li_response_id (list_item (scored_response, first_score))
                       \<noteq> r_id unscored_response"
    by simp
  from asked member question orphan items absent show ?thesis by blast
qed

end
